theory Spec2Isabelle
  imports Main
begin

section \<open>Data model of the droppable collection state\<close>

text \<open>
  The hook \<open>useDroppableCollectionState\<close> and the helper \<open>isEqualDropTarget\<close> (the second
  module of \<open>TableView.tsx\<close>) are embedded as HOL functions. A React \<open>Key\<close> is a string or a
  number; collection keys are row ids and indices, so number keys are integers here, and
  \<open>===\<close> on keys and \<open>Set.has\<close> are HOL equality and membership (a string key never equals a
  number key).
\<close>

datatype Key = StringKey string | NumberKey int

datatype DropPosition = Before | After | On

text \<open>\<open>DropTarget\<close> is the tagged union \<open>{type: 'root'} | {type: 'item', key, dropPosition}\<close>.
  A variable of that type that may hold \<open>null\<close> or \<open>undefined\<close> is a \<open>DropTarget option\<close>.\<close>

datatype DropTarget = RootTarget | ItemTarget Key DropPosition

datatype DropOperation = Copy | Link | Move | Cancel

text \<open>\<open>DragTypes\<close> is consumed only through \<open>types.has(type)\<close>.\<close>

type_synonym DragTypes = "string set"

definition has :: "DragTypes \<Rightarrow> string \<Rightarrow> bool" where
  "has types t = (t \<in> types)"

text \<open>\<open>acceptedDragTypes\<close> is \<open>'all'\<close> or an array of type tags.\<close>

datatype AcceptedDragTypes = All | Types "string list"

record DropOperationEvent =
  target :: DropTarget
  types :: DragTypes
  allowedOperations :: "DropOperation list"
  isInternal :: bool
  draggingKeys :: "Key set"

text \<open>The collection is consumed through its neighbour traversal; \<open>None\<close> is \<open>null\<close>.\<close>

record Collection =
  getKeyBefore :: "Key \<Rightarrow> Key option"
  getKeyAfter :: "Key \<Rightarrow> Key option"

text \<open>
  The options of the hook. The handlers \<open>onInsert\<close>, \<open>onRootDrop\<close>, \<open>onItemDrop\<close>,
  \<open>onReorder\<close> and \<open>onDrop\<close> are only tested for being supplied, so each is the boolean
  "the host supplied it"; so are \<open>onDropEnter\<close> and \<open>onDropExit\<close>, whose calls are recorded in
  the state below. The two callbacks whose results are used are optional functions. An
  omitted \<open>acceptedDragTypes\<close> is \<open>None\<close>. The selection manager is passed through untouched
  and is left out.
\<close>

record DroppableCollectionStateOptions =
  acceptedDragTypes :: "AcceptedDragTypes option"
  onInsert :: bool
  onRootDrop :: bool
  onItemDrop :: bool
  onReorder :: bool
  shouldAcceptItemDrop :: "(DropTarget \<Rightarrow> DragTypes \<Rightarrow> bool) option"
  collection :: Collection
  onDropEnter :: bool
  onDropExit :: bool
  props_getDropOperation :: "(DropTarget \<Rightarrow> DragTypes \<Rightarrow> DropOperation list \<Rightarrow> DropOperation) option"
  onDrop :: bool

text \<open>The event object handed to \<open>onDropEnter\<close> and \<open>onDropExit\<close>.\<close>

datatype DropEventType = DropEnterType | DropExitType

record DropEvent =
  ev_type :: DropEventType
  ev_x :: int
  ev_y :: int
  ev_target :: DropTarget

datatype HandlerCall = OnDropExit DropEvent | OnDropEnter DropEvent

text \<open>
  The mutable state of one hook instance: the React state \<open>target\<close>, the back-reference
  \<open>targetRef.current\<close>, and the calls made to the host's notification handlers so far, oldest
  first.
\<close>

record DroppableCollectionState =
  stateTarget :: "DropTarget option"
  targetRef :: "DropTarget option"
  calls :: "HandlerCall list"

section \<open>Target equality and the opposite target\<close>

text \<open>\<open>isEqualDropTarget(a, b)\<close>: \<open>!a\<close> holds exactly for \<open>null\<close> and \<open>undefined\<close>, since every
  target object is truthy.\<close>

fun isEqualDropTarget :: "DropTarget option \<Rightarrow> DropTarget option \<Rightarrow> bool" where
  "isEqualDropTarget None b = (b = None)"
| "isEqualDropTarget (Some RootTarget) b =
     (case b of Some RootTarget \<Rightarrow> True | _ \<Rightarrow> False)"
| "isEqualDropTarget (Some (ItemTarget k p)) b =
     (case b of Some (ItemTarget k' p') \<Rightarrow> k' = k \<and> p' = p | _ \<Rightarrow> False)"

text \<open>\<open>getOppositeTarget\<close>: \<open>null\<close> when there is no neighbour; the function falls off its end
  (\<open>undefined\<close>) for position \<open>on\<close>, and for a target without a position.\<close>

fun getOppositeTarget :: "Collection \<Rightarrow> DropTarget \<Rightarrow> DropTarget option" where
  "getOppositeTarget c (ItemTarget k Before) =
     (case getKeyBefore c k of Some j \<Rightarrow> Some (ItemTarget j After) | None \<Rightarrow> None)"
| "getOppositeTarget c (ItemTarget k After) =
     (case getKeyAfter c k of Some j \<Rightarrow> Some (ItemTarget j Before) | None \<Rightarrow> None)"
| "getOppositeTarget c (ItemTarget k On) = None"
| "getOppositeTarget c RootTarget = None"

section \<open>Drop operation resolution\<close>

text \<open>\<open>allowedOperations[0]\<close>: reading an array past its end gives \<open>undefined\<close>.\<close>

definition arrayGet :: "'a list \<Rightarrow> nat \<Rightarrow> 'a option" where
  "arrayGet xs i = (if i < length xs then Some (xs ! i) else None)"

text \<open>The destructuring default \<open>acceptedDragTypes = 'all'\<close>.\<close>

definition acceptedDragTypesOf :: "DroppableCollectionStateOptions \<Rightarrow> AcceptedDragTypes" where
  "acceptedDragTypesOf props =
     (case acceptedDragTypes props of None \<Rightarrow> All | Some a \<Rightarrow> a)"

text \<open>The condition of the outer \<open>if\<close>:
  \<open>acceptedDragTypes === 'all' || acceptedDragTypes.some(type => types.has(type))\<close>.\<close>

definition typeGate :: "AcceptedDragTypes \<Rightarrow> DragTypes \<Rightarrow> bool" where
  "typeGate accepted tys =
     (case accepted of All \<Rightarrow> True | Types ts \<Rightarrow> list_ex (has tys) ts)"

text \<open>The four validity flags, each a conjunction in the source's order.\<close>

definition isValidInsert :: "DroppableCollectionStateOptions \<Rightarrow> DropOperationEvent \<Rightarrow> bool" where
  "isValidInsert props e =
     (onInsert props \<and>
      (case target e of
         ItemTarget k p \<Rightarrow> \<not> isInternal e \<and> (p = Before \<or> p = After)
       | RootTarget \<Rightarrow> False))"

definition isValidReorder :: "DroppableCollectionStateOptions \<Rightarrow> DropOperationEvent \<Rightarrow> bool" where
  "isValidReorder props e =
     (onReorder props \<and>
      (case target e of
         ItemTarget k p \<Rightarrow> isInternal e \<and> (p = Before \<or> p = After)
       | RootTarget \<Rightarrow> False))"

definition isValidRootDrop :: "DroppableCollectionStateOptions \<Rightarrow> DropOperationEvent \<Rightarrow> bool" where
  "isValidRootDrop props e =
     (onRootDrop props \<and>
      (case target e of
         RootTarget \<Rightarrow> \<not> isInternal e
       | ItemTarget k p \<Rightarrow> False))"

definition isValidOnItemDrop :: "DroppableCollectionStateOptions \<Rightarrow> DropOperationEvent \<Rightarrow> bool" where
  "isValidOnItemDrop props e =
     (onItemDrop props \<and>
      (case target e of
         ItemTarget k p \<Rightarrow>
           p = On \<and> \<not> (isInternal e \<and> k \<in> draggingKeys e) \<and>
           (case shouldAcceptItemDrop props of
              None \<Rightarrow> True
            | Some accept \<Rightarrow> accept (target e) (types e))
       | RootTarget \<Rightarrow> False))"

text \<open>The condition of the inner \<open>if\<close>.\<close>

definition proceedsToSelection :: "DroppableCollectionStateOptions \<Rightarrow> DropOperationEvent \<Rightarrow> bool" where
  "proceedsToSelection props e =
     (onDrop props \<or> isValidInsert props e \<or> isValidReorder props e \<or>
      isValidRootDrop props e \<or> isValidOnItemDrop props e)"

text \<open>\<open>defaultGetDropOperation\<close>; the result \<open>None\<close> is \<open>undefined\<close>.\<close>

definition defaultGetDropOperation ::
  "DroppableCollectionStateOptions \<Rightarrow> DropOperationEvent \<Rightarrow> DropOperation option" where
  "defaultGetDropOperation props e =
     (if typeGate (acceptedDragTypesOf props) (types e) then
        (if proceedsToSelection props e then
           (case props_getDropOperation props of
              Some f \<Rightarrow> Some (f (target e) (types e) (allowedOperations e))
            | None \<Rightarrow> arrayGet (allowedOperations e) 0)
         else Some Cancel)
      else Some Cancel)"

text \<open>The method \<open>getDropOperation(e)\<close> of the returned state object.\<close>

definition getDropOperation ::
  "DroppableCollectionStateOptions \<Rightarrow> DropOperationEvent \<Rightarrow> DropOperation option" where
  "getDropOperation props e = defaultGetDropOperation props e"

section \<open>The current target\<close>

text \<open>\<open>isDropTarget(dropTarget)\<close> compares with \<open>targetRef.current\<close>.\<close>

definition isDropTarget ::
  "DroppableCollectionStateOptions \<Rightarrow> DroppableCollectionState \<Rightarrow> DropTarget option \<Rightarrow> bool" where
  "isDropTarget props st dropTarget =
     (let tgt = targetRef st in
      if isEqualDropTarget dropTarget tgt then True
      else
        (case (dropTarget, tgt) of
           (Some (ItemTarget k1 p1), Some (ItemTarget k2 p2)) \<Rightarrow>
             if k1 \<noteq> k2 \<and> p1 \<noteq> p2 \<and> p1 \<noteq> On \<and> p2 \<noteq> On then
               isEqualDropTarget (getOppositeTarget (collection props) (ItemTarget k1 p1)) tgt \<or>
               isEqualDropTarget dropTarget (getOppositeTarget (collection props) (ItemTarget k2 p2))
             else False
         | _ \<Rightarrow> False))"

definition dropExitEvent :: "DropTarget \<Rightarrow> DropEvent" where
  "dropExitEvent t = \<lparr>ev_type = DropExitType, ev_x = 0, ev_y = 0, ev_target = t\<rparr>"

definition dropEnterEvent :: "DropTarget \<Rightarrow> DropEvent" where
  "dropEnterEvent t = \<lparr>ev_type = DropEnterType, ev_x = 0, ev_y = 0, ev_target = t\<rparr>"

text \<open>The two guarded notifications of \<open>setTarget\<close>, each appending the call it makes.\<close>

definition notifyExit ::
  "DroppableCollectionStateOptions \<Rightarrow> DropTarget option \<Rightarrow> HandlerCall list \<Rightarrow> HandlerCall list" where
  "notifyExit props tgt cs =
     (case tgt of
        Some t \<Rightarrow> if onDropExit props then cs @ [OnDropExit (dropExitEvent t)] else cs
      | None \<Rightarrow> cs)"

definition notifyEnter ::
  "DroppableCollectionStateOptions \<Rightarrow> DropTarget option \<Rightarrow> HandlerCall list \<Rightarrow> HandlerCall list" where
  "notifyEnter props newTarget cs =
     (case newTarget of
        Some t \<Rightarrow> if onDropEnter props then cs @ [OnDropEnter (dropEnterEvent t)] else cs
      | None \<Rightarrow> cs)"

text \<open>\<open>setTarget(newTarget)\<close>, as a state transformer.\<close>

definition setTarget ::
  "DroppableCollectionStateOptions \<Rightarrow> DroppableCollectionState \<Rightarrow> DropTarget option
     \<Rightarrow> DroppableCollectionState" where
  "setTarget props st newTarget =
     (if isDropTarget props st newTarget then st
      else
        st\<lparr>calls := notifyEnter props newTarget (notifyExit props (targetRef st) (calls st)),
           stateTarget := newTarget,
           targetRef := newTarget\<rparr>)"

section \<open>Column headers of the table view\<close>

text \<open>
  The column props that decide which header component \<open>renderView\<close> builds for a column node
  and whether \<open>ResizableTableColumnHeader\<close> throws. \<open>width\<close> is a number or a string when
  supplied; the boolean props are tested for truthiness only, so an omitted one is \<open>False\<close>.
\<close>

datatype ColumnSize = NumberSize int | StringSize string

record SpectrumColumnProps =
  width :: "ColumnSize option"
  allowsResizing :: bool
  hideHeader :: bool
  isSelectionCell :: bool

text \<open>Truthiness of \<open>columnProps.width\<close>: \<open>undefined\<close>, \<open>0\<close> and the empty string are falsy.\<close>

fun truthyWidth :: "ColumnSize option \<Rightarrow> bool" where
  "truthyWidth None = False"
| "truthyWidth (Some (NumberSize n)) = (n \<noteq> 0)"
| "truthyWidth (Some (StringSize s)) = (s \<noteq> [])"

datatype error = Error string

datatype ColumnView =
    TableSelectAllCellView
  | HiddenTableColumnHeaderView
  | ResizableTableColumnHeaderView
  | TableColumnHeaderView

definition controlledResizeMessage :: string where
  "controlledResizeMessage =
     ''Controlled state is not yet supported with column resizing. Please use defaultWidth for uncontrolled column resizing or remove the allowsResizing prop.''"

text \<open>\<open>ResizableTableColumnHeader\<close>: the configuration check, then the rendered header.\<close>

definition ResizableTableColumnHeader :: "SpectrumColumnProps \<Rightarrow> error + ColumnView" where
  "ResizableTableColumnHeader columnProps =
     (if truthyWidth (width columnProps) \<and> allowsResizing columnProps
      then Inl (Error controlledResizeMessage)
      else Inr ResizableTableColumnHeaderView)"

text \<open>The \<open>case 'column'\<close> branch of \<open>renderView\<close>: the header rendered for a column node.\<close>

definition renderColumnHeader :: "SpectrumColumnProps \<Rightarrow> error + ColumnView" where
  "renderColumnHeader itemProps =
     (if isSelectionCell itemProps then Inr TableSelectAllCellView
      else if hideHeader itemProps then Inr HiddenTableColumnHeaderView
      else if allowsResizing itemProps then ResizableTableColumnHeader itemProps
      else Inr TableColumnHeaderView)"

section \<open>Concrete configurations\<close>

text \<open>A collection of the two rows \<open>a\<close>, \<open>b\<close> in this order, and one without rows.\<close>

definition keyA :: Key where "keyA = StringKey ''a''"
definition keyB :: Key where "keyB = StringKey ''b''"

definition twoRows :: Collection where
  "twoRows =
     \<lparr>getKeyBefore = (\<lambda>k. if k = keyB then Some keyA else None),
      getKeyAfter = (\<lambda>k. if k = keyA then Some keyB else None)\<rparr>"

text \<open>The options of a host that supplies nothing but the collection.\<close>

definition noOptions :: DroppableCollectionStateOptions where
  "noOptions =
     \<lparr>acceptedDragTypes = None, onInsert = False, onRootDrop = False, onItemDrop = False,
      onReorder = False, shouldAcceptItemDrop = None, collection = twoRows,
      onDropEnter = False, onDropExit = False, props_getDropOperation = None,
      onDrop = False\<rparr>"

definition notified :: DroppableCollectionStateOptions where
  "notified = noOptions\<lparr>onDropEnter := True, onDropExit := True\<rparr>"

text \<open>The state while the pointer rests on the boundary after row \<open>a\<close>.\<close>

definition hoveringAfterA :: DroppableCollectionState where
  "hoveringAfterA =
     \<lparr>stateTarget = Some (ItemTarget keyA After), targetRef = Some (ItemTarget keyA After),
      calls = []\<rparr>"

text \<open>Three drags: external HTML over the root, row \<open>a\<close> onto itself, and row \<open>a\<close> onto the
  root of its own collection.\<close>

definition htmlDrag :: DropOperationEvent where
  "htmlDrag =
     \<lparr>target = RootTarget, types = {''text/html''}, allowedOperations = [Move, Copy],
      isInternal = False, draggingKeys = {}\<rparr>"

definition selfDrop :: DropOperationEvent where
  "selfDrop =
     \<lparr>target = ItemTarget keyA On, types = {''text/plain''}, allowedOperations = [Move, Copy],
      isInternal = True, draggingKeys = {keyA}\<rparr>"

definition internalRootDrop :: DropOperationEvent where
  "internalRootDrop =
     \<lparr>target = RootTarget, types = {''text/plain''}, allowedOperations = [Move, Copy],
      isInternal = True, draggingKeys = {keyA}\<rparr>"

section \<open>Properties of target equality\<close>

lemma isEqualDropTarget_eq: "isEqualDropTarget x y \<longleftrightarrow> x = y"
  by (cases "(x, y)" rule: isEqualDropTarget.cases)
     (auto split: option.splits DropTarget.splits)

text \<open>
  C8. \<open>isEqualDropTarget(a, b)\<close> is true exactly when both are absent, or both are the root,
  or both are item targets with the same key and the same drop position. So every target,
  absent or not, equals itself, and the root never equals an item target, whichever way
  round they are passed.
\<close>

theorem isEqualDropTarget_characterisation:
  "(isEqualDropTarget a b \<longleftrightarrow>
      (a = None \<and> b = None) \<or>
      (a = Some RootTarget \<and> b = Some RootTarget) \<or>
      (\<exists>k p. a = Some (ItemTarget k p) \<and> b = Some (ItemTarget k p))) \<and>
   isEqualDropTarget t t \<and>
   isEqualDropTarget None None \<and>
   \<not> isEqualDropTarget (Some RootTarget) (Some (ItemTarget k' p')) \<and>
   \<not> isEqualDropTarget (Some (ItemTarget k' p')) (Some RootTarget)"
  unfolding isEqualDropTarget_eq
  by (cases a; cases b) (auto split: DropTarget.splits intro: DropTarget.exhaust)

theorem isEqualDropTarget_characterisation_witness:
  "isEqualDropTarget (Some (ItemTarget keyA On)) (Some (ItemTarget keyA On)) \<and>
   isEqualDropTarget None None \<and>
   \<not> isEqualDropTarget (Some RootTarget) (Some (ItemTarget keyB After))"
  using isEqualDropTarget_characterisation
    [of "Some (ItemTarget keyA On)" "Some (ItemTarget keyA On)" "Some (ItemTarget keyA On)"
        keyB After]
  by blast

text \<open>
  C7. The opposite of \<open>{K, before}\<close> is \<open>{J, after}\<close> when \<open>getKeyBefore(K) = J\<close>, and when the
  collection also has \<open>getKeyAfter(J) = K\<close> the opposite of that opposite equals the original
  target; the first item has no opposite on its \<open>before\<close> side. The same holds with
  \<open>before\<close> and \<open>after\<close> exchanged, the last item having no opposite on its \<open>after\<close> side.
\<close>

theorem opposite_target_symmetry:
  "(getKeyBefore c K = Some J \<longrightarrow>
      getOppositeTarget c (ItemTarget K Before) = Some (ItemTarget J After) \<and>
      (getKeyAfter c J = Some K \<longrightarrow>
         isEqualDropTarget (getOppositeTarget c (ItemTarget J After))
           (Some (ItemTarget K Before)))) \<and>
   (getKeyBefore c K = None \<longrightarrow> getOppositeTarget c (ItemTarget K Before) = None) \<and>
   (getKeyAfter c K = Some J \<longrightarrow>
      getOppositeTarget c (ItemTarget K After) = Some (ItemTarget J Before) \<and>
      (getKeyBefore c J = Some K \<longrightarrow>
         isEqualDropTarget (getOppositeTarget c (ItemTarget J Before))
           (Some (ItemTarget K After)))) \<and>
   (getKeyAfter c K = None \<longrightarrow> getOppositeTarget c (ItemTarget K After) = None)"
  by simp

theorem opposite_target_symmetry_witness:
  "getOppositeTarget twoRows (ItemTarget keyB Before) = Some (ItemTarget keyA After) \<and>
   isEqualDropTarget (getOppositeTarget twoRows (ItemTarget keyA After))
     (Some (ItemTarget keyB Before)) \<and>
   getOppositeTarget twoRows (ItemTarget keyA Before) = None \<and>
   getOppositeTarget twoRows (ItemTarget keyA After) = Some (ItemTarget keyB Before) \<and>
   isEqualDropTarget (getOppositeTarget twoRows (ItemTarget keyB Before))
     (Some (ItemTarget keyA After)) \<and>
   getOppositeTarget twoRows (ItemTarget keyB After) = None"
proof -
  have ne: "keyA \<noteq> keyB" by (simp add: keyA_def keyB_def)
  have b: "getKeyBefore twoRows keyB = Some keyA" "getKeyBefore twoRows keyA = None"
    using ne by (simp_all add: twoRows_def)
  have a: "getKeyAfter twoRows keyA = Some keyB" "getKeyAfter twoRows keyB = None"
    using ne by (simp_all add: twoRows_def)
  show ?thesis
    using opposite_target_symmetry [of twoRows keyB keyA]
      opposite_target_symmetry [of twoRows keyA keyB] a b
    by blast
qed

section \<open>Properties of drop operation resolution\<close>

text \<open>
  C1. When the host declared a restricted list of accepted drag types and the drag carries
  none of them, \<open>getDropOperation\<close> returns \<open>cancel\<close>, for every target, every combination of
  supplied handlers and every custom \<open>getDropOperation\<close> callback. Declaring \<open>'all'\<close> always
  passes the type check.
\<close>

theorem type_gate_cancels:
  "(acceptedDragTypes props = Some (Types ts) \<and> set ts \<inter> types e = {}
      \<longrightarrow> getDropOperation props e = Some Cancel) \<and>
   typeGate All tys \<and>
   (acceptedDragTypes props = Some All \<longrightarrow> typeGate (acceptedDragTypesOf props) tys)"
proof -
  have "\<not> list_ex (has (types e)) ts" if "set ts \<inter> types e = {}"
    using that by (auto simp: list_ex_iff has_def)
  then show ?thesis
    by (simp add: getDropOperation_def defaultGetDropOperation_def typeGate_def
        acceptedDragTypesOf_def)
qed

theorem type_gate_cancels_witness:
  "getDropOperation
     (noOptions\<lparr>acceptedDragTypes := Some (Types [''text/plain'']), onRootDrop := True,
        onDrop := True, props_getDropOperation := Some (\<lambda>t ts ops. Copy)\<rparr>)
     htmlDrag = Some Cancel"
  using type_gate_cancels
    [of "noOptions\<lparr>acceptedDragTypes := Some (Types [''text/plain'']), onRootDrop := True,
        onDrop := True, props_getDropOperation := Some (\<lambda>t ts ops. Copy)\<rparr>"
        "[''text/plain'']" htmlDrag]
  by (simp add: noOptions_def htmlDrag_def)

text \<open>
  C2. When the type check passes and \<open>onDrop\<close> is supplied or one of the four validity flags
  holds, the result is the result of the host's \<open>getDropOperation\<close> callback if there is one,
  and \<open>allowedOperations[0]\<close> otherwise: the first entry of a non-empty \<open>allowedOperations\<close>.
  With \<open>onReorder\<close> supplied, target \<open>{item, 'b', before}\<close>, an internal drag of \<open>{'a'}\<close>,
  \<open>allowedOperations = ['move', 'copy']\<close> and no custom callback, the result is \<open>move\<close>.
\<close>

theorem operation_selection:
  "(typeGate (acceptedDragTypesOf props) (types e) \<and>
    (onDrop props \<or> isValidInsert props e \<or> isValidReorder props e \<or>
     isValidRootDrop props e \<or> isValidOnItemDrop props e) \<longrightarrow>
      (\<forall>f. props_getDropOperation props = Some f \<longrightarrow>
         getDropOperation props e = Some (f (target e) (types e) (allowedOperations e))) \<and>
      (props_getDropOperation props = None \<longrightarrow>
         getDropOperation props e = arrayGet (allowedOperations e) 0 \<and>
         (\<forall>op rest. allowedOperations e = op # rest \<longrightarrow>
            getDropOperation props e = Some op))) \<and>
   (typeGate (acceptedDragTypesOf props) tys \<and> onReorder props \<and>
    props_getDropOperation props = None \<longrightarrow>
      getDropOperation props
        \<lparr>target = ItemTarget (StringKey ''b'') Before, types = tys,
         allowedOperations = [Move, Copy], isInternal = True,
         draggingKeys = {StringKey ''a''}\<rparr> = Some Move)"
  by (auto simp: getDropOperation_def defaultGetDropOperation_def proceedsToSelection_def
      arrayGet_def isValidReorder_def)

theorem operation_selection_witness:
  "getDropOperation (noOptions\<lparr>onReorder := True\<rparr>)
     \<lparr>target = ItemTarget (StringKey ''b'') Before, types = {''text/plain''},
      allowedOperations = [Move, Copy], isInternal = True,
      draggingKeys = {StringKey ''a''}\<rparr> = Some Move \<and>
   getDropOperation
     (noOptions\<lparr>onDrop := True, props_getDropOperation := Some (\<lambda>t ts ops. Cancel)\<rparr>)
     htmlDrag = Some Cancel"
  using operation_selection [of "noOptions\<lparr>onReorder := True\<rparr>" htmlDrag "{''text/plain''}"]
    operation_selection
      [of "noOptions\<lparr>onDrop := True, props_getDropOperation := Some (\<lambda>t ts ops. Cancel)\<rparr>"
          htmlDrag]
  by (simp add: noOptions_def htmlDrag_def typeGate_def acceptedDragTypesOf_def)

text \<open>
  C3, as the claim states it, fails: a host that supplies the catch-all \<open>onDrop\<close> (and
  \<open>onItemDrop\<close>) gets \<open>move\<close> for row \<open>a\<close> dragged onto itself.
\<close>

theorem self_drop_counterexample:
  "target selfDrop = ItemTarget keyA On \<and> isInternal selfDrop \<and>
   keyA \<in> draggingKeys selfDrop \<and>
   getDropOperation (noOptions\<lparr>onItemDrop := True, onDrop := True\<rparr>) selfDrop = Some Move"
  by (simp add: selfDrop_def noOptions_def getDropOperation_def defaultGetDropOperation_def
      typeGate_def acceptedDragTypesOf_def proceedsToSelection_def arrayGet_def)

text \<open>
  C3, amended. For an item target with position \<open>on\<close>, an internal drag whose dragged keys
  contain the target's key, and no \<open>onDrop\<close> callback supplied, \<open>getDropOperation\<close> returns
  \<open>cancel\<close>, whether or not \<open>onItemDrop\<close> (or any other handler or callback) is supplied.
\<close>

theorem self_drop_cancelled:
  "target e = ItemTarget k On \<and> isInternal e \<and> k \<in> draggingKeys e \<and> \<not> onDrop props
     \<longrightarrow> getDropOperation props e = Some Cancel"
  by (simp add: getDropOperation_def defaultGetDropOperation_def proceedsToSelection_def
      isValidInsert_def isValidReorder_def isValidRootDrop_def isValidOnItemDrop_def)

theorem self_drop_cancelled_witness:
  "getDropOperation (noOptions\<lparr>onItemDrop := True\<rparr>) selfDrop = Some Cancel"
  using self_drop_cancelled [of selfDrop keyA "noOptions\<lparr>onItemDrop := True\<rparr>"]
  by (simp add: selfDrop_def noOptions_def)

text \<open>
  C4, as the claim states it, fails: a host that supplies the catch-all \<open>onDrop\<close> (and
  \<open>onRootDrop\<close>) gets \<open>move\<close> for an internal drag over the root.
\<close>

theorem internal_root_drop_counterexample:
  "target internalRootDrop = RootTarget \<and> isInternal internalRootDrop \<and>
   getDropOperation (noOptions\<lparr>onRootDrop := True, onDrop := True\<rparr>) internalRootDrop =
     Some Move"
  by (simp add: internalRootDrop_def noOptions_def getDropOperation_def
      defaultGetDropOperation_def typeGate_def acceptedDragTypesOf_def proceedsToSelection_def
      arrayGet_def)

text \<open>
  C4, amended. For the root target, an internal drag, and no \<open>onDrop\<close> callback supplied,
  \<open>getDropOperation\<close> returns \<open>cancel\<close>, in particular when \<open>onRootDrop\<close> is supplied.
\<close>

theorem internal_root_drop_cancelled:
  "target e = RootTarget \<and> isInternal e \<and> \<not> onDrop props
     \<longrightarrow> getDropOperation props e = Some Cancel"
  by (simp add: getDropOperation_def defaultGetDropOperation_def proceedsToSelection_def
      isValidInsert_def isValidReorder_def isValidRootDrop_def isValidOnItemDrop_def)

theorem internal_root_drop_cancelled_witness:
  "getDropOperation (noOptions\<lparr>onRootDrop := True\<rparr>) internalRootDrop = Some Cancel"
  using internal_root_drop_cancelled [of internalRootDrop "noOptions\<lparr>onRootDrop := True\<rparr>"]
  by (simp add: internalRootDrop_def noOptions_def)

text \<open>
  C10. When the type check passes, \<open>onDrop\<close> is supplied or a validity flag holds, there is
  no custom \<open>getDropOperation\<close> callback and \<open>allowedOperations\<close> is empty, the result is
  \<open>undefined\<close>: neither an operation nor \<open>cancel\<close>. Such an input exists.
\<close>

theorem empty_allowedOperations_undefined:
  "(typeGate (acceptedDragTypesOf props) (types e) \<and>
    (onDrop props \<or> isValidInsert props e \<or> isValidReorder props e \<or>
     isValidRootDrop props e \<or> isValidOnItemDrop props e) \<and>
    props_getDropOperation props = None \<and> allowedOperations e = []
      \<longrightarrow> getDropOperation props e = None) \<and>
   (\<exists>props' e'. getDropOperation props' e' = None)"
proof -
  have "getDropOperation (noOptions\<lparr>onDrop := True\<rparr>) (selfDrop\<lparr>allowedOperations := []\<rparr>)
          = None"
    by (simp add: selfDrop_def noOptions_def getDropOperation_def defaultGetDropOperation_def
        typeGate_def acceptedDragTypesOf_def proceedsToSelection_def arrayGet_def)
  then have "\<exists>props' e'. getDropOperation props' e' = None" by blast
  then show ?thesis
    by (simp add: getDropOperation_def defaultGetDropOperation_def proceedsToSelection_def
        arrayGet_def)
qed

theorem empty_allowedOperations_undefined_witness:
  "getDropOperation (noOptions\<lparr>onReorder := True\<rparr>)
     \<lparr>target = ItemTarget keyB Before, types = {}, allowedOperations = [],
      isInternal = True, draggingKeys = {keyA}\<rparr> = None \<and>
   getDropOperation (noOptions\<lparr>onReorder := True\<rparr>)
     \<lparr>target = ItemTarget keyB Before, types = {}, allowedOperations = [],
      isInternal = True, draggingKeys = {keyA}\<rparr> \<noteq> Some Cancel"
  using empty_allowedOperations_undefined [of "noOptions\<lparr>onReorder := True\<rparr>"
     "\<lparr>target = ItemTarget keyB Before, types = {}, allowedOperations = [],
      isInternal = True, draggingKeys = {keyA}\<rparr>"]
  by (simp add: noOptions_def typeGate_def acceptedDragTypesOf_def isValidReorder_def)

section \<open>Properties of target assignment\<close>

text \<open>
  C5. When \<open>isDropTarget(newTarget)\<close> holds for the stored target, \<open>setTarget(newTarget)\<close>
  changes nothing: the stored target stays and no handler is called. This covers two item
  targets on the two sides of one boundary: with \<open>{A, after}\<close> stored and \<open>B\<close> the row that
  follows \<open>A\<close>, the target \<open>{B, before}\<close> is the current target.
\<close>

theorem setTarget_same_target_noop:
  "(isDropTarget props st newTarget \<longrightarrow>
      setTarget props st newTarget = st \<and>
      targetRef (setTarget props st newTarget) = targetRef st \<and>
      calls (setTarget props st newTarget) = calls st) \<and>
   (targetRef st = Some (ItemTarget A After) \<and> A \<noteq> B \<and>
    (getKeyAfter (collection props) A = Some B \<or> getKeyBefore (collection props) B = Some A)
      \<longrightarrow>
      isDropTarget props st (Some (ItemTarget B Before)) \<and>
      setTarget props st (Some (ItemTarget B Before)) = st)"
proof -
  have noop: "setTarget props st t = st" if "isDropTarget props st t" for t
    using that by (simp add: setTarget_def)
  have same: "isDropTarget props st (Some (ItemTarget B Before))"
    if "targetRef st = Some (ItemTarget A After)" "A \<noteq> B"
       "getKeyAfter (collection props) A = Some B \<or> getKeyBefore (collection props) B = Some A"
    using that by (auto simp: isDropTarget_def)
  show ?thesis using noop same by simp
qed

theorem setTarget_same_target_noop_witness:
  "isDropTarget notified hoveringAfterA (Some (ItemTarget keyB Before)) \<and>
   setTarget notified hoveringAfterA (Some (ItemTarget keyB Before)) = hoveringAfterA \<and>
   calls (setTarget notified hoveringAfterA (Some (ItemTarget keyB Before))) = []"
proof -
  have h: "targetRef hoveringAfterA = Some (ItemTarget keyA After)" "keyA \<noteq> keyB"
    "getKeyAfter (collection notified) keyA = Some keyB"
    "calls hoveringAfterA = []"
    by (simp_all add: hoveringAfterA_def notified_def noOptions_def twoRows_def keyA_def
        keyB_def)
  show ?thesis
    using setTarget_same_target_noop
      [of notified hoveringAfterA "Some (ItemTarget keyB Before)" keyA keyB] h
    by simp
qed

text \<open>
  C6. When \<open>newTarget\<close> is not the current target, \<open>setTarget(newTarget)\<close> makes these calls
  and no others, in this order: one call of \<open>onDropExit\<close> with the outgoing target if a
  target was stored, then one call of \<open>onDropEnter\<close> with the incoming target if
  \<open>newTarget\<close> is not null (each goes to the handler the host supplied; both events carry
  the coordinates 0, 0). Afterwards \<open>newTarget\<close> is the stored target, in the back-reference
  and in the React state.
\<close>

theorem setTarget_exit_then_enter:
  "\<not> isDropTarget props st newTarget \<longrightarrow>
     calls (setTarget props st newTarget) =
       calls st @
       (case targetRef st of
          Some old \<Rightarrow>
            if onDropExit props
            then [OnDropExit \<lparr>ev_type = DropExitType, ev_x = 0, ev_y = 0, ev_target = old\<rparr>]
            else []
        | None \<Rightarrow> []) @
       (case newTarget of
          Some new \<Rightarrow>
            if onDropEnter props
            then [OnDropEnter \<lparr>ev_type = DropEnterType, ev_x = 0, ev_y = 0, ev_target = new\<rparr>]
            else []
        | None \<Rightarrow> []) \<and>
     targetRef (setTarget props st newTarget) = newTarget \<and>
     stateTarget (setTarget props st newTarget) = newTarget"
  by (simp add: setTarget_def notifyExit_def notifyEnter_def dropExitEvent_def
      dropEnterEvent_def split: option.splits)

theorem setTarget_exit_then_enter_witness:
  "\<not> isDropTarget notified hoveringAfterA (Some (ItemTarget keyB On)) \<and>
   calls (setTarget notified hoveringAfterA (Some (ItemTarget keyB On))) =
     [OnDropExit \<lparr>ev_type = DropExitType, ev_x = 0, ev_y = 0,
        ev_target = ItemTarget keyA After\<rparr>,
      OnDropEnter \<lparr>ev_type = DropEnterType, ev_x = 0, ev_y = 0,
        ev_target = ItemTarget keyB On\<rparr>] \<and>
   targetRef (setTarget notified hoveringAfterA (Some (ItemTarget keyB On))) =
     Some (ItemTarget keyB On)"
proof -
  have n: "\<not> isDropTarget notified hoveringAfterA (Some (ItemTarget keyB On))"
    by (simp add: isDropTarget_def hoveringAfterA_def keyA_def keyB_def)
  have h: "targetRef hoveringAfterA = Some (ItemTarget keyA After)" "calls hoveringAfterA = []"
    "onDropExit notified" "onDropEnter notified"
    by (simp_all add: hoveringAfterA_def notified_def noOptions_def)
  show ?thesis
    using setTarget_exit_then_enter [of notified hoveringAfterA "Some (ItemTarget keyB On)"] n h
    by simp
qed

section \<open>Properties of the column header check\<close>

text \<open>
  C9, as the claim states it, fails: a column with \<open>width = 100\<close>, \<open>allowsResizing\<close> and
  \<open>hideHeader\<close> is rendered as a plain header inside a tooltip trigger, and nothing is thrown.
\<close>

theorem hidden_header_counterexample:
  "width \<lparr>width = Some (NumberSize 100), allowsResizing = True, hideHeader = True,
      isSelectionCell = False\<rparr> = Some (NumberSize 100) \<and>
   allowsResizing \<lparr>width = Some (NumberSize 100), allowsResizing = True, hideHeader = True,
      isSelectionCell = False\<rparr> \<and>
   renderColumnHeader \<lparr>width = Some (NumberSize 100), allowsResizing = True, hideHeader = True,
      isSelectionCell = False\<rparr> = Inr HiddenTableColumnHeaderView"
  by (simp add: renderColumnHeader_def)

text \<open>
  C9, amended. A column whose \<open>width\<close> prop is a non-zero number or a non-empty string and
  whose \<open>allowsResizing\<close> is true makes \<open>ResizableTableColumnHeader\<close> throw the configuration
  error; rendering the header of such a column throws it when the column is neither the
  selection cell nor one with a hidden header. The throw is an error value, not a result of
  the rendering.
\<close>

theorem controlled_width_with_resizing_throws:
  "truthyWidth (width columnProps) \<and> allowsResizing columnProps \<longrightarrow>
     ResizableTableColumnHeader columnProps = Inl (Error controlledResizeMessage) \<and>
     (\<not> isSelectionCell columnProps \<and> \<not> hideHeader columnProps \<longrightarrow>
        renderColumnHeader columnProps = Inl (Error controlledResizeMessage))"
  by (simp add: ResizableTableColumnHeader_def renderColumnHeader_def)

theorem controlled_width_with_resizing_throws_witness:
  "renderColumnHeader \<lparr>width = Some (NumberSize 100), allowsResizing = True, hideHeader = False,
      isSelectionCell = False\<rparr> = Inl (Error controlledResizeMessage) \<and>
   ResizableTableColumnHeader \<lparr>width = Some (StringSize ''50%''), allowsResizing = True,
      hideHeader = False, isSelectionCell = False\<rparr> = Inl (Error controlledResizeMessage)"
  using controlled_width_with_resizing_throws
      [of "\<lparr>width = Some (NumberSize 100), allowsResizing = True, hideHeader = False,
      isSelectionCell = False\<rparr>"]
    controlled_width_with_resizing_throws
      [of "\<lparr>width = Some (StringSize ''50%''), allowsResizing = True,
      hideHeader = False, isSelectionCell = False\<rparr>"]
  by simp

text \<open>The check tests \<open>width\<close> for truthiness, so a width of \<open>0\<close> passes it.\<close>

lemma zero_width_renders:
  "ResizableTableColumnHeader \<lparr>width = Some (NumberSize 0), allowsResizing = True,
      hideHeader = False, isSelectionCell = False\<rparr> = Inr ResizableTableColumnHeaderView"
  by (simp add: ResizableTableColumnHeader_def)

end
